theory Spec2Isabelle
  imports Main
begin

section \<open>The TextLabel component (TextLabel.tsx)\<close>

text \<open>
  The component is a React function component: a set of event handlers attached to a
  textarea, two effects, and the props they close over. Each handler is embedded as a
  function from the element it is called on to the element afterwards, together with the
  list of observable calls it makes, in program order. Names follow the source.
\<close>

subsection \<open>Data\<close>

text \<open>A callback prop is a function object; only its identity matters here.\<close>

type_synonym callback = nat

text \<open>
  \<open>TextLabelProps\<close>, lines 9-19. Optional props are options; \<open>'n\<close> stands for the
  JavaScript number type, on which the component does no arithmetic.
\<close>

record 'n TextLabelProps =
  font :: string
  label_text :: string
  isDarkMode :: bool
  onBlur :: "callback option"
  onChange :: callback
  offsetY :: "'n option"
  offsetX :: "'n option"
  scale :: "'n option"
  isEditing :: "bool option"

text \<open>The defaults of the destructuring pattern, lines 25-28.\<close>

definition offsetX_of :: "('n::zero) TextLabelProps \<Rightarrow> 'n" where
  "offsetX_of p = (case offsetX p of None \<Rightarrow> 0 | Some x \<Rightarrow> x)"

definition offsetY_of :: "('n::zero) TextLabelProps \<Rightarrow> 'n" where
  "offsetY_of p = (case offsetY p of None \<Rightarrow> 0 | Some y \<Rightarrow> y)"

definition scale_of :: "('n::one) TextLabelProps \<Rightarrow> 'n" where
  "scale_of p = (case scale p of None \<Rightarrow> 1 | Some s \<Rightarrow> s)"

definition isEditing_of :: "'n TextLabelProps \<Rightarrow> bool" where
  "isEditing_of p = (case isEditing p of None \<Rightarrow> False | Some b \<Rightarrow> b)"

text \<open>The fields of a \<open>React.KeyboardEvent\<close> that \<open>handleKeyDown\<close> reads.\<close>

record KeyboardEvent =
  key :: string
  metaKey :: bool
  ctrlKey :: bool
  shiftKey :: bool

text \<open>
  The state of the \<open>HTMLTextAreaElement\<close> that the handlers read and write: its raw
  value, its selection, and whether it is \<open>document.activeElement\<close>.
\<close>

record TextAreaElement =
  elm_value :: string
  selectionStart :: nat
  selectionEnd :: nat
  hasFocus :: bool

text \<open>
  The inner wrapper \<open>div\<close> (lines 143-182): the style properties set by the render and
  by the layout effect, and the label it shows.
\<close>

record InnerWrapperElement =
  style_transform :: string
  style_width :: string
  style_height :: string
  style_font :: string
  style_color :: string
  content :: string

text \<open>The two refs whose \<open>current\<close> the deferred focus callback uses (lines 32-33).\<close>

record Refs =
  rInput :: "TextAreaElement option"
  rIsMounted :: bool

text \<open>What a handler or an effect does to the outside, in the order it does it.\<close>

datatype effect =
    StopPropagation
  | PreventDefault
  | ExecCommand string
  | ElmBlur
  | CallOnChange callback string
  | CallOnBlur callback
  | RequestAnimationFrame

text \<open>
  Functions the file imports and that are defined elsewhere (\<open>TLDR.normalizeText\<close>,
  \<open>TextAreaUtils.indent\<close>, \<open>TextAreaUtils.unindent\<close>, \<open>getTextLabelSize\<close>), and two
  services of the host: \<open>document.execCommand\<close> acting on the focused textarea, and the
  conversion of a number to a string inside a template literal. The handlers are
  parametrised by them.
\<close>

record 'n externals =
  normalizeText :: "string \<Rightarrow> string"
  indent :: "TextAreaElement \<Rightarrow> TextAreaElement"
  unindent :: "TextAreaElement \<Rightarrow> TextAreaElement"
  getTextLabelSize :: "string \<Rightarrow> string \<Rightarrow> 'n \<times> 'n"
  execCommand :: "string \<Rightarrow> TextAreaElement \<Rightarrow> TextAreaElement"
  numberToString :: "'n \<Rightarrow> string"

subsection \<open>Host operations on the textarea\<close>

text \<open>
  \<open>setSelectionRange(start, end)\<close>: both ends are clamped to the length of the value, and
  a start beyond the end is moved to the end. \<open>select()\<close> selects the whole value.
\<close>

definition setSelectionRange :: "nat \<Rightarrow> nat \<Rightarrow> TextAreaElement \<Rightarrow> TextAreaElement" where
  "setSelectionRange s e elm =
     (let n = length (elm_value elm); e' = min e n; s' = min (min s n) e'
      in elm\<lparr>selectionStart := s', selectionEnd := e'\<rparr>)"

definition select :: "TextAreaElement \<Rightarrow> TextAreaElement" where
  "select elm = elm\<lparr>selectionStart := 0, selectionEnd := length (elm_value elm)\<rparr>"

text \<open>The optional call \<open>onBlur?.()\<close>: nothing happens when the prop is undefined.\<close>

definition optional_call :: "callback option \<Rightarrow> effect list" where
  "optional_call f = (case f of None \<Rightarrow> [] | Some cb \<Rightarrow> [CallOnBlur cb])"

text \<open>The calls of the \<open>onBlur\<close> prop among the calls made.\<close>

fun is_CallOnBlur :: "effect \<Rightarrow> bool" where
  "is_CallOnBlur (CallOnBlur cb) = True"
| "is_CallOnBlur _ = False"

subsection \<open>The event handlers\<close>

text \<open>\<open>handleChange\<close>, lines 37-42.\<close>

definition handleChange :: "'n externals \<Rightarrow> 'n TextLabelProps \<Rightarrow> TextAreaElement \<Rightarrow> effect list" where
  "handleChange ext p elm = [CallOnChange (onChange p) (normalizeText ext (elm_value elm))]"

text \<open>
  \<open>handleKeyDown\<close>, lines 44-85. \<open>handleKeyDown_rest\<close> is the part after the first
  conditional (lines 68-82), reached from both of its branches that do not return; \<open>sofar\<close>
  holds the calls made so far.
\<close>

definition handleKeyDown_rest ::
  "'n externals \<Rightarrow> 'n TextLabelProps \<Rightarrow> KeyboardEvent \<Rightarrow> TextAreaElement \<Rightarrow> effect list
    \<Rightarrow> TextAreaElement \<times> effect list" where
  "handleKeyDown_rest ext p e elm sofar =
     (if key e = ''Escape'' \<or> (key e = ''Enter'' \<and> (ctrlKey e \<or> metaKey e))
      then (elm, sofar @ [ElmBlur])
      else if key e = ''Tab''
      then (let elm' = (if shiftKey e then unindent ext elm else indent ext elm)
            in (elm', sofar @ [PreventDefault,
                 CallOnChange (onChange p) (normalizeText ext (elm_value elm'))]))
      else (elm, sofar))"

definition handleKeyDown ::
  "'n externals \<Rightarrow> 'n TextLabelProps \<Rightarrow> KeyboardEvent \<Rightarrow> TextAreaElement
    \<Rightarrow> TextAreaElement \<times> effect list" where
  "handleKeyDown ext p e elm =
     (if \<not> (key e = ''Meta'' \<or> metaKey e)
      then handleKeyDown_rest ext p e elm [StopPropagation]
      else if key e = ''z'' \<and> metaKey e
      then (if shiftKey e
            then (execCommand ext ''redo'' elm, [ExecCommand ''redo'', StopPropagation, PreventDefault])
            else (execCommand ext ''undo'' elm, [ExecCommand ''undo'', StopPropagation, PreventDefault]))
      else handleKeyDown_rest ext p e elm [])"

text \<open>\<open>handleBlur\<close>, lines 87-93.\<close>

definition handleBlur :: "'n TextLabelProps \<Rightarrow> TextAreaElement \<Rightarrow> TextAreaElement \<times> effect list" where
  "handleBlur p elm = (setSelectionRange 0 0 elm, optional_call (onBlur p))"

text \<open>
  \<open>handleFocus\<close>, lines 95-105; \<open>mounted\<close> is \<open>rIsMounted.current\<close>, and the test
  \<open>document.activeElement === e.currentTarget\<close> reads \<open>hasFocus\<close>.
\<close>

definition handleFocus :: "'n TextLabelProps \<Rightarrow> bool \<Rightarrow> TextAreaElement \<Rightarrow> TextAreaElement" where
  "handleFocus p mounted elm =
     (if \<not> isEditing_of p then elm
      else if \<not> mounted then elm
      else if hasFocus elm then select elm else elm)"

text \<open>\<open>handlePointerDown\<close>, lines 107-114.\<close>

definition handlePointerDown :: "'n TextLabelProps \<Rightarrow> effect list" where
  "handlePointerDown p = (if isEditing_of p then [StopPropagation] else [])"

subsection \<open>Delivery of events by the host\<close>

text \<open>
  \<open>HTMLElement.blur()\<close>: an element that has the focus loses it and its blur event is
  delivered, here to \<open>handleBlur\<close> (line 174); on an element without focus nothing happens.
  \<open>HTMLElement.focus()\<close> likewise, delivering to \<open>handleFocus\<close> (line 171).
\<close>

definition elm_blur :: "'n TextLabelProps \<Rightarrow> TextAreaElement \<Rightarrow> TextAreaElement \<times> effect list" where
  "elm_blur p elm = (if hasFocus elm then handleBlur p (elm\<lparr>hasFocus := False\<rparr>) else (elm, []))"

definition elm_focus :: "'n TextLabelProps \<Rightarrow> bool \<Rightarrow> TextAreaElement \<Rightarrow> TextAreaElement" where
  "elm_focus p mounted elm =
     (if hasFocus elm then elm else handleFocus p mounted (elm\<lparr>hasFocus := True\<rparr>))"

text \<open>
  A keydown event on the textarea: \<open>handleKeyDown\<close> runs, and its call of
  \<open>e.currentTarget.blur()\<close> (always its last call, line 69) takes effect.
\<close>

definition dispatchKeyDown ::
  "'n externals \<Rightarrow> 'n TextLabelProps \<Rightarrow> KeyboardEvent \<Rightarrow> TextAreaElement
    \<Rightarrow> TextAreaElement \<times> effect list" where
  "dispatchKeyDown ext p e elm =
     (let (elm1, effs) = handleKeyDown ext p e elm
      in if ElmBlur \<in> set effs
         then (let (elm2, effs2) = elm_blur p elm1 in (elm2, effs @ effs2))
         else (elm1, effs))"

text \<open>
  The events of the textarea whose handlers are in this file (lines 171-175), each
  delivered to the element in the state the browser has put it in: after the edit for a
  change event, without focus for a blur event, with focus for a focus event.
\<close>

datatype dom_event =
    ChangeEvent
  | KeyDownEvent KeyboardEvent
  | BlurEvent
  | FocusEvent
  | PointerDownEvent

definition dispatchEvent ::
  "'n externals \<Rightarrow> 'n TextLabelProps \<Rightarrow> bool \<Rightarrow> dom_event \<Rightarrow> TextAreaElement
    \<Rightarrow> TextAreaElement \<times> effect list" where
  "dispatchEvent ext p mounted ev elm =
     (case ev of
        ChangeEvent \<Rightarrow> (elm, handleChange ext p elm)
      | KeyDownEvent e \<Rightarrow> dispatchKeyDown ext p e elm
      | BlurEvent \<Rightarrow> handleBlur p (elm\<lparr>hasFocus := False\<rparr>)
      | FocusEvent \<Rightarrow> (handleFocus p mounted (elm\<lparr>hasFocus := True\<rparr>), [])
      | PointerDownEvent \<Rightarrow> (elm, handlePointerDown p))"

subsection \<open>The effects\<close>

text \<open>
  The effect of lines 116-129 and the callback it passes to \<open>requestAnimationFrame\<close>
  (lines 118-125).
\<close>

definition isEditingEffect :: "'n TextLabelProps \<Rightarrow> effect list" where
  "isEditingEffect p = (if isEditing_of p then [RequestAnimationFrame] else optional_call (onBlur p))"

definition frameCallback :: "'n TextLabelProps \<Rightarrow> Refs \<Rightarrow> Refs" where
  "frameCallback p r =
     (let r1 = r\<lparr>rIsMounted := True\<rparr>
      in case rInput r1 of
           None \<Rightarrow> r1
         | Some elm \<Rightarrow> r1\<lparr>rInput := Some (select (elm_focus p True elm))\<rparr>)"

text \<open>
  \<open>useEffect(f, [isEditing, onBlur])\<close> after a re-render: the effect runs when one of the
  dependencies differs from its value at the previous render.
\<close>

definition rerender_isEditingEffect :: "'n TextLabelProps \<Rightarrow> 'n TextLabelProps \<Rightarrow> effect list" where
  "rerender_isEditingEffect old new =
     (if isEditing_of old \<noteq> isEditing_of new \<or> onBlur old \<noteq> onBlur new
      then isEditingEffect new else [])"

text \<open>
  The next animation frame runs every callback that was scheduled, in order; the only
  callback this component schedules is \<open>frameCallback\<close>.
\<close>

definition nextFrame :: "'n TextLabelProps \<Rightarrow> effect list \<Rightarrow> Refs \<Rightarrow> Refs" where
  "nextFrame p effs r =
     fold (\<lambda>eff r'. if eff = RequestAnimationFrame then frameCallback p r' else r') effs r"

text \<open>
  The layout effect, lines 133-139, on \<open>rInnerWrapper.current\<close>; \<open>size\<close> is computed at
  line 34.
\<close>

definition transform_of :: "('n::{zero,one}) externals \<Rightarrow> 'n TextLabelProps \<Rightarrow> string" where
  "transform_of ext p =
     ''scale('' @ numberToString ext (scale_of p) @ '', '' @ numberToString ext (scale_of p)
       @ '') translate('' @ numberToString ext (offsetX_of p) @ ''px, ''
       @ numberToString ext (offsetY_of p) @ ''px)''"

definition layoutEffect ::
  "('n::{zero,one}) externals \<Rightarrow> 'n TextLabelProps \<Rightarrow> InnerWrapperElement option
    \<Rightarrow> InnerWrapperElement option" where
  "layoutEffect ext p current =
     (case current of
        None \<Rightarrow> None
      | Some elm \<Rightarrow>
          (let size = getTextLabelSize ext (label_text p) (font p)
           in Some (elm\<lparr>style_transform := transform_of ext p,
                        style_width := numberToString ext (fst size) @ ''px'',
                        style_height := numberToString ext (snd size) @ ''px''\<rparr>)))"

text \<open>
  \<open>useLayoutEffect(f, [size, offsetY, offsetX, scale])\<close> after a re-render. \<open>size\<close> is an
  array and is compared by identity; \<open>sizeChanged\<close> says whether \<open>getTextLabelSize\<close>
  returned another array than at the previous render.
\<close>

definition rerender_layoutEffect ::
  "('n::{zero,one}) externals \<Rightarrow> bool \<Rightarrow> 'n TextLabelProps \<Rightarrow> 'n TextLabelProps
    \<Rightarrow> InnerWrapperElement option \<Rightarrow> InnerWrapperElement option" where
  "rerender_layoutEffect ext sizeChanged old new current =
     (if sizeChanged \<or> offsetY_of old \<noteq> offsetY_of new \<or> offsetX_of old \<noteq> offsetX_of new
         \<or> scale_of old \<noteq> scale_of new
      then layoutEffect ext new current else current)"

subsection \<open>Newline canonicalisation\<close>

definition CR :: char where
  "CR = CHR 0x0D"

definition LF :: char where
  "LF = CHR 0x0A"

text \<open>
  Modelled from the spec: \<open>TLDR.normalizeText\<close> is imported from another module and is
  not part of this file. The spec describes it as the canonicalisation of newlines in the
  raw input. It is modelled as the rewriting that reads the text from left to right and
  replaces every CR LF pair and every other CR by one LF; the raw character it removes
  is CR.
\<close>

fun TLDR_normalizeText :: "string \<Rightarrow> string" where
  "TLDR_normalizeText [] = []"
| "TLDR_normalizeText [c] = [if c = CR then LF else c]"
| "TLDR_normalizeText (c # d # cs) =
     (if c = CR
      then (if d = LF then LF # TLDR_normalizeText cs else LF # TLDR_normalizeText (d # cs))
      else c # TLDR_normalizeText (d # cs))"

subsection \<open>A concrete instance\<close>

text \<open>
  An instance of the imported functions and of the props, on which the theorems below are
  evaluated: numbers are naturals, normalisation drops carriage returns, indentation is
  two spaces at the start of the value.
\<close>

definition example_externals :: "nat externals" where
  "example_externals =
     \<lparr>normalizeText = filter (\<lambda>c. c \<noteq> CHR 0x0D),
      indent = (\<lambda>elm. elm\<lparr>elm_value := ''  '' @ elm_value elm\<rparr>),
      unindent = (\<lambda>elm. elm\<lparr>elm_value := (if take 2 (elm_value elm) = ''  ''
                                            then drop 2 (elm_value elm) else elm_value elm)\<rparr>),
      getTextLabelSize = (\<lambda>t f. (length t, 1)),
      execCommand = (\<lambda>c elm. elm),
      numberToString = (\<lambda>n. if n < 10 then [''0123456789'' ! n] else ''10+'')\<rparr>"

definition example_props :: "nat TextLabelProps" where
  "example_props =
     \<lparr>font = ''sans'', label_text = ''hi'', isDarkMode = False, onBlur = Some 7, onChange = 3,
      offsetY = None, offsetX = Some 4, scale = None, isEditing = Some True\<rparr>"

definition example_textarea :: TextAreaElement where
  "example_textarea =
     \<lparr>elm_value = ''hi'', selectionStart = 1, selectionEnd = 2, hasFocus = True\<rparr>"

definition example_key :: "string \<Rightarrow> bool \<Rightarrow> bool \<Rightarrow> bool \<Rightarrow> KeyboardEvent" where
  "example_key k m c s = \<lparr>key = k, metaKey = m, ctrlKey = c, shiftKey = s\<rparr>"

definition example_wrapper :: InnerWrapperElement where
  "example_wrapper =
     \<lparr>style_transform = ''scale(1, 1) translate(4px, 0px)'', style_width = ''2px'',
      style_height = ''1px'', style_font = ''sans'', style_color = ''black'', content = ''hi''\<rparr>"

section \<open>Properties\<close>

subsection \<open>Shared facts\<close>

lemma filter_optional_call: "filter is_CallOnBlur (optional_call f) = optional_call f"
  by (simp add: optional_call_def split: option.splits)

lemmas handler_defs =
  dispatchEvent_def handleChange_def handleBlur_def handlePointerDown_def dispatchKeyDown_def
  elm_blur_def handleKeyDown_def handleKeyDown_rest_def optional_call_def setSelectionRange_def

lemmas example_defs =
  example_externals_def example_props_def example_textarea_def example_key_def

subsection \<open>Text handed to the change callback\<close>

text \<open>
  C1. A change event makes exactly one call of \<open>onChange\<close>, with \<open>TLDR.normalizeText\<close> of
  the textarea's value. Whatever event of the textarea is handled, every call of
  \<open>onChange\<close> it leads to (the Tab path of \<open>handleKeyDown\<close> included) goes to the
  \<open>onChange\<close> prop and carries \<open>TLDR.normalizeText\<close> of the value the textarea then has.
\<close>

theorem onChange_receives_normalized_text:
  "snd (dispatchEvent ext p mounted ChangeEvent elm)
     = [CallOnChange (onChange p) (normalizeText ext (elm_value elm))]
   \<and> (\<forall>cb t. CallOnChange cb t \<in> set (snd (dispatchEvent ext p mounted ev elm)) \<longrightarrow>
         cb = onChange p \<and>
         t = normalizeText ext (elm_value (fst (dispatchEvent ext p mounted ev elm))))"
proof (intro conjI allI impI)
  show "snd (dispatchEvent ext p mounted ChangeEvent elm)
     = [CallOnChange (onChange p) (normalizeText ext (elm_value elm))]"
    by (simp add: dispatchEvent_def handleChange_def)
next
  fix cb t
  assume called: "CallOnChange cb t \<in> set (snd (dispatchEvent ext p mounted ev elm))"
  show "cb = onChange p"
    using called
    by (cases ev) (auto simp add: handler_defs Let_def split: if_splits option.splits prod.splits)
  show "t = normalizeText ext (elm_value (fst (dispatchEvent ext p mounted ev elm)))"
    using called
    by (cases ev) (auto simp add: handler_defs Let_def split: if_splits option.splits prod.splits)
qed

theorem onChange_receives_normalized_text_witness:
  "CallOnChange 3 ''  a'' \<in> set (snd (dispatchEvent example_externals example_props True
       (KeyDownEvent (example_key ''Tab'' False False False))
       (example_textarea\<lparr>elm_value := [CHR ''a'', CHR 0x0D]\<rparr>)))
   \<and> ''  a'' = normalizeText example_externals (elm_value (fst (dispatchEvent example_externals
       example_props True (KeyDownEvent (example_key ''Tab'' False False False))
       (example_textarea\<lparr>elm_value := [CHR ''a'', CHR 0x0D]\<rparr>))))"
proof -
  let ?elm = "example_textarea\<lparr>elm_value := [CHR ''a'', CHR 0x0D]\<rparr>"
  let ?ev = "KeyDownEvent (example_key ''Tab'' False False False)"
  have called: "CallOnChange 3 ''  a'' \<in> set (snd (dispatchEvent example_externals example_props True ?ev ?elm))"
    by (simp add: handler_defs example_defs Let_def)
  from onChange_receives_normalized_text [of example_externals example_props True ?elm ?ev] called
  have "''  a'' = normalizeText example_externals
          (elm_value (fst (dispatchEvent example_externals example_props True ?ev ?elm)))"
    by blast
  with called show ?thesis by simp
qed

subsection \<open>Propagation of keydown events\<close>




subsection \<open>Leaving edit mode from the keyboard\<close>

text \<open>
  C4. \<open>handleKeyDown\<close> calls \<open>blur()\<close> on the textarea once when the key is Escape, or
  Enter with the Ctrl or the Meta modifier held, and not at all for any other keydown
  event.
\<close>

theorem blur_called_iff_escape_or_mod_enter:
  "count_list (snd (handleKeyDown ext p e elm)) ElmBlur =
     (if key e = ''Escape'' \<or> (key e = ''Enter'' \<and> (ctrlKey e \<or> metaKey e)) then 1 else 0)"
  by (auto simp add: handleKeyDown_def handleKeyDown_rest_def Let_def)

theorem blur_called_iff_escape_or_mod_enter_witness:
  "count_list (snd (handleKeyDown example_externals example_props
       (example_key ''Enter'' False True False) example_textarea)) ElmBlur = 1
   \<and> count_list (snd (handleKeyDown example_externals example_props
       (example_key ''Enter'' False False True) example_textarea)) ElmBlur = 0"
  using blur_called_iff_escape_or_mod_enter [of example_externals example_props
          "example_key ''Enter'' False True False" example_textarea]
        blur_called_iff_escape_or_mod_enter [of example_externals example_props
          "example_key ''Enter'' False False True" example_textarea]
  by (simp add: example_key_def)

subsection \<open>Tab and Shift+Tab\<close>

text \<open>
  C5. On a keydown event whose key is Tab, \<open>handleKeyDown\<close> calls \<open>preventDefault\<close>,
  applies \<open>TextAreaUtils.indent\<close> to the textarea, or \<open>TextAreaUtils.unindent\<close> when Shift
  is held, and then calls \<open>onChange\<close> once with \<open>TLDR.normalizeText\<close> of the value the
  textarea has after that. These are all its calls, after \<open>stopPropagation\<close> when the meta
  modifier is not held.
\<close>

theorem tab_indents_and_forwards:
  assumes "key e = ''Tab''"
  shows "fst (handleKeyDown ext p e elm) = (if shiftKey e then unindent ext elm else indent ext elm)
     \<and> snd (handleKeyDown ext p e elm) =
         (if metaKey e then [] else [StopPropagation]) @
         [PreventDefault,
          CallOnChange (onChange p) (normalizeText ext (elm_value (fst (handleKeyDown ext p e elm))))]"
  using assms by (simp add: handleKeyDown_def handleKeyDown_rest_def Let_def)

theorem tab_indents_and_forwards_witness:
  "key (example_key ''Tab'' False False True) = ''Tab''
   \<and> elm_value (fst (handleKeyDown example_externals example_props
        (example_key ''Tab'' False False True) (example_textarea\<lparr>elm_value := ''    x''\<rparr>))) = ''  x''
   \<and> snd (handleKeyDown example_externals example_props
        (example_key ''Tab'' False False True) (example_textarea\<lparr>elm_value := ''    x''\<rparr>))
      = [StopPropagation, PreventDefault, CallOnChange 3 ''  x'']"
proof -
  have tab: "key (example_key ''Tab'' False False True) = ''Tab''"
    by (simp add: example_key_def)
  show ?thesis
    using tab tab_indents_and_forwards [OF tab, of example_externals example_props
        "example_textarea\<lparr>elm_value := ''    x''\<rparr>"]
    by (simp add: example_defs)
qed

subsection \<open>Blur events\<close>

text \<open>
  C8. \<open>handleBlur\<close> sets the selection of the textarea to the range from 0 to 0 and makes
  the optional call of \<open>onBlur\<close>: one call when the prop was supplied, and no call, and
  nothing else, when it was not.
\<close>

theorem handleBlur_collapses_and_notifies:
  "handleBlur p elm =
     (elm\<lparr>selectionStart := 0, selectionEnd := 0\<rparr>,
      case onBlur p of None \<Rightarrow> [] | Some cb \<Rightarrow> [CallOnBlur cb])"
  by (simp add: handleBlur_def setSelectionRange_def optional_call_def Let_def)

theorem handleBlur_collapses_and_notifies_witness:
  "handleBlur (example_props\<lparr>onBlur := None\<rparr>) example_textarea =
     (\<lparr>elm_value = ''hi'', selectionStart = 0, selectionEnd = 0, hasFocus = True\<rparr>, [])
   \<and> snd (handleBlur example_props example_textarea) = [CallOnBlur 7]"
  using handleBlur_collapses_and_notifies [of "example_props\<lparr>onBlur := None\<rparr>" example_textarea]
        handleBlur_collapses_and_notifies [of example_props example_textarea]
  by (simp add: example_defs)

subsection \<open>Leaving edit mode through the props\<close>

text \<open>
  C10. When a re-render takes \<open>isEditing\<close> from true to false, the effect of lines 116-129
  runs and makes the optional call of \<open>onBlur\<close>: the callback of the new props is called
  once if it was supplied. No event of the textarea is involved.
\<close>

theorem effect_calls_onBlur_when_editing_ends:
  assumes "isEditing_of old" and "\<not> isEditing_of new"
  shows "rerender_isEditingEffect old new =
           (case onBlur new of None \<Rightarrow> [] | Some cb \<Rightarrow> [CallOnBlur cb])"
  using assms
  by (auto simp add: rerender_isEditingEffect_def isEditingEffect_def optional_call_def)

theorem effect_calls_onBlur_when_editing_ends_witness:
  "isEditing_of example_props \<and> \<not> isEditing_of (example_props\<lparr>isEditing := None\<rparr>)
   \<and> rerender_isEditingEffect example_props (example_props\<lparr>isEditing := None\<rparr>) = [CallOnBlur 7]"
proof -
  have before: "isEditing_of example_props"
    by (simp add: isEditing_of_def example_props_def)
  have after: "\<not> isEditing_of (example_props\<lparr>isEditing := None\<rparr>)"
    by (simp add: isEditing_of_def)
  show ?thesis
    using before after effect_calls_onBlur_when_editing_ends [OF before after]
    by (simp add: example_props_def)
qed

subsection \<open>Escape and the blur callback\<close>

text \<open>
  C3, as the code has it. On an Escape keydown \<open>handleKeyDown\<close> calls \<open>blur()\<close> on the
  textarea exactly once. When the textarea has the focus, the blur event this raises
  reaches \<open>handleBlur\<close>, and the calls of \<open>onBlur\<close> made while the key is handled are
  those of one optional call: one when the prop was supplied, none when it was not. When
  the component is then re-rendered with \<open>isEditing\<close> false, the effect of lines 116-129
  makes the optional call of \<open>onBlur\<close> a second time.
\<close>

theorem escape_blur_calls:
  assumes "key e = ''Escape''" and "hasFocus elm"
  shows "count_list (snd (handleKeyDown ext p e elm)) ElmBlur = 1
     \<and> filter is_CallOnBlur (snd (dispatchKeyDown ext p e elm)) = optional_call (onBlur p)
     \<and> (isEditing_of p \<and> \<not> isEditing_of p' \<longrightarrow>
          filter is_CallOnBlur (snd (dispatchKeyDown ext p e elm) @ rerender_isEditingEffect p p')
            = optional_call (onBlur p) @ optional_call (onBlur p'))"
  using assms
  by (auto simp add: dispatchKeyDown_def handleKeyDown_def handleKeyDown_rest_def elm_blur_def
      handleBlur_def rerender_isEditingEffect_def isEditingEffect_def filter_optional_call Let_def)

theorem escape_blur_calls_witness:
  "key (example_key ''Escape'' False False False) = ''Escape'' \<and> hasFocus example_textarea
   \<and> isEditing_of example_props \<and> \<not> isEditing_of (example_props\<lparr>isEditing := Some False\<rparr>)
   \<and> count_list (snd (handleKeyDown example_externals example_props
         (example_key ''Escape'' False False False) example_textarea)) ElmBlur = 1
   \<and> filter is_CallOnBlur (snd (dispatchKeyDown example_externals example_props
         (example_key ''Escape'' False False False) example_textarea)) = [CallOnBlur 7]
   \<and> filter is_CallOnBlur (snd (dispatchKeyDown example_externals example_props
         (example_key ''Escape'' False False False) example_textarea)
       @ rerender_isEditingEffect example_props (example_props\<lparr>isEditing := Some False\<rparr>))
      = [CallOnBlur 7, CallOnBlur 7]"
proof -
  have esc: "key (example_key ''Escape'' False False False) = ''Escape''"
    by (simp add: example_key_def)
  have focus: "hasFocus example_textarea"
    by (simp add: example_textarea_def)
  have before: "isEditing_of example_props"
    by (simp add: isEditing_of_def example_props_def)
  have after: "\<not> isEditing_of (example_props\<lparr>isEditing := Some False\<rparr>)"
    by (simp add: isEditing_of_def)
  have first: "optional_call (onBlur example_props) = [CallOnBlur 7]"
    by (simp add: optional_call_def example_props_def)
  have second: "optional_call (onBlur (example_props\<lparr>isEditing := Some False\<rparr>)) = [CallOnBlur 7]"
    by (simp add: optional_call_def example_props_def)
  note calls = escape_blur_calls [OF esc focus, of example_externals example_props
        "example_props\<lparr>isEditing := Some False\<rparr>"]
  from calls before after
  have twice: "filter is_CallOnBlur (snd (dispatchKeyDown example_externals example_props
         (example_key ''Escape'' False False False) example_textarea)
       @ rerender_isEditingEffect example_props (example_props\<lparr>isEditing := Some False\<rparr>))
      = optional_call (onBlur example_props)
        @ optional_call (onBlur (example_props\<lparr>isEditing := Some False\<rparr>))"
    by blast
  from calls have once: "filter is_CallOnBlur (snd (dispatchKeyDown example_externals example_props
         (example_key ''Escape'' False False False) example_textarea))
      = optional_call (onBlur example_props)"
    by blast
  from calls have blur: "count_list (snd (handleKeyDown example_externals example_props
         (example_key ''Escape'' False False False) example_textarea)) ElmBlur = 1"
    by blast
  show ?thesis
    unfolding twice once first second
    using esc focus before after blur by simp
qed

text \<open>
  The claim as the spec states it gives exactly one call of the blur callback. With the
  callback 7 supplied, an Escape keydown on the focused textarea followed by the re-render
  that leaves edit mode calls it twice; with no callback supplied, the Escape keydown
  calls none.
\<close>

theorem escape_then_exit_calls_onBlur_twice:
  "count_list (snd (dispatchKeyDown example_externals example_props
       (example_key ''Escape'' False False False) example_textarea)
     @ rerender_isEditingEffect example_props (example_props\<lparr>isEditing := Some False\<rparr>))
     (CallOnBlur 7) = 2
   \<and> filter is_CallOnBlur (snd (dispatchKeyDown example_externals (example_props\<lparr>onBlur := None\<rparr>)
       (example_key ''Escape'' False False False) example_textarea)) = []"
  by (simp add: handler_defs example_defs rerender_isEditingEffect_def isEditingEffect_def
      isEditing_of_def Let_def)

subsection \<open>Entering edit mode\<close>

text \<open>
  C6. When a re-render takes \<open>isEditing\<close> from false to true, the effect of lines 116-129
  makes one call of \<open>requestAnimationFrame\<close> and nothing else. At the next frame the
  callback runs: it sets \<open>rIsMounted\<close>, and if \<open>rInput.current\<close> holds the textarea it
  leaves it focused with its whole value selected (from 0 to the length of the value);
  if there is no element it does nothing more.
\<close>

theorem entering_edit_mode_schedules_focus_select:
  assumes "\<not> isEditing_of old" and "isEditing_of new"
  shows "rerender_isEditingEffect old new = [RequestAnimationFrame]
     \<and> nextFrame new (rerender_isEditingEffect old new) r = frameCallback new r
     \<and> rIsMounted (frameCallback new r)
     \<and> rInput (frameCallback new r) =
         (case rInput r of
            None \<Rightarrow> None
          | Some elm \<Rightarrow> Some (elm\<lparr>selectionStart := 0, selectionEnd := length (elm_value elm),
                                 hasFocus := True\<rparr>))"
proof -
  have eff: "rerender_isEditingEffect old new = [RequestAnimationFrame]"
    using assms by (auto simp add: rerender_isEditingEffect_def isEditingEffect_def)
  have frame: "nextFrame new [RequestAnimationFrame] r = frameCallback new r"
    by (simp add: nextFrame_def)
  have mounted: "rIsMounted (frameCallback new r)"
    by (simp add: frameCallback_def Let_def split: option.splits)
  have input: "rInput (frameCallback new r) =
         (case rInput r of
            None \<Rightarrow> None
          | Some elm \<Rightarrow> Some (elm\<lparr>selectionStart := 0, selectionEnd := length (elm_value elm),
                                 hasFocus := True\<rparr>))"
    using assms(2)
    by (auto simp add: frameCallback_def elm_focus_def handleFocus_def select_def Let_def
        split: option.splits)
  from eff frame mounted input show ?thesis by simp
qed

theorem entering_edit_mode_schedules_focus_select_witness:
  "\<not> isEditing_of (example_props\<lparr>isEditing := None\<rparr>) \<and> isEditing_of example_props
   \<and> rerender_isEditingEffect (example_props\<lparr>isEditing := None\<rparr>) example_props
       = [RequestAnimationFrame]
   \<and> nextFrame example_props
       (rerender_isEditingEffect (example_props\<lparr>isEditing := None\<rparr>) example_props)
       \<lparr>rInput = Some (example_textarea\<lparr>hasFocus := False\<rparr>), rIsMounted = False\<rparr>
     = \<lparr>rInput = Some \<lparr>elm_value = ''hi'', selectionStart = 0, selectionEnd = 2, hasFocus = True\<rparr>,
        rIsMounted = True\<rparr>"
proof -
  let ?r = "\<lparr>rInput = Some (example_textarea\<lparr>hasFocus := False\<rparr>), rIsMounted = False\<rparr>"
  have before: "\<not> isEditing_of (example_props\<lparr>isEditing := None\<rparr>)"
    by (simp add: isEditing_of_def)
  have after: "isEditing_of example_props"
    by (simp add: isEditing_of_def example_props_def)
  note facts = entering_edit_mode_schedules_focus_select [OF before after, of ?r]
  from facts
  have eff: "rerender_isEditingEffect (example_props\<lparr>isEditing := None\<rparr>) example_props
      = [RequestAnimationFrame]"
    by blast
  from facts
  have frame: "nextFrame example_props
      (rerender_isEditingEffect (example_props\<lparr>isEditing := None\<rparr>) example_props) ?r
      = frameCallback example_props ?r"
    by blast
  from facts have mounted: "rIsMounted (frameCallback example_props ?r)"
    by blast
  from facts
  have input: "rInput (frameCallback example_props ?r)
      = Some \<lparr>elm_value = ''hi'', selectionStart = 0, selectionEnd = 2, hasFocus = True\<rparr>"
    by (simp add: example_textarea_def)
  have result: "frameCallback example_props ?r
      = \<lparr>rInput = Some \<lparr>elm_value = ''hi'', selectionStart = 0, selectionEnd = 2, hasFocus = True\<rparr>,
         rIsMounted = True\<rparr>"
    using mounted input by (cases "frameCallback example_props ?r") simp
  show ?thesis
    unfolding frame result using before after eff by simp
qed

subsection \<open>The transform of the inner wrapper\<close>

text \<open>
  C7. When a re-render changes \<open>scale\<close>, \<open>offsetX\<close> or \<open>offsetY\<close>, the layout effect of
  lines 133-139 runs on the inner wrapper: it sets the transform to the scale followed by
  the translation of the new props, and the width and height to the measured size. The
  label the element shows and its other style properties stay as they were; without an
  element the effect does nothing.
\<close>

theorem layout_effect_sets_transform_only:
  assumes "scale_of old \<noteq> scale_of new \<or> offsetX_of old \<noteq> offsetX_of new
            \<or> offsetY_of old \<noteq> offsetY_of new"
  shows "rerender_layoutEffect ext sizeChanged old new (Some elm) =
      Some (elm\<lparr>style_transform :=
                   ''scale('' @ numberToString ext (scale_of new) @ '', ''
                     @ numberToString ext (scale_of new) @ '') translate(''
                     @ numberToString ext (offsetX_of new) @ ''px, ''
                     @ numberToString ext (offsetY_of new) @ ''px)'',
                 style_width :=
                   numberToString ext (fst (getTextLabelSize ext (label_text new) (font new))) @ ''px'',
                 style_height :=
                   numberToString ext (snd (getTextLabelSize ext (label_text new) (font new))) @ ''px''\<rparr>)
    \<and> (\<exists>elm'. rerender_layoutEffect ext sizeChanged old new (Some elm) = Some elm'
          \<and> content elm' = content elm \<and> style_font elm' = style_font elm
          \<and> style_color elm' = style_color elm)
    \<and> rerender_layoutEffect ext sizeChanged old new None = None"
  using assms
  by (auto simp add: rerender_layoutEffect_def layoutEffect_def transform_of_def Let_def)

theorem layout_effect_sets_transform_only_witness:
  "scale_of example_props \<noteq> scale_of (example_props\<lparr>scale := Some 2\<rparr>)
   \<and> rerender_layoutEffect example_externals False example_props
        (example_props\<lparr>scale := Some 2\<rparr>) (Some example_wrapper)
      = Some \<lparr>style_transform = ''scale(2, 2) translate(4px, 0px)'', style_width = ''2px'',
              style_height = ''1px'', style_font = ''sans'', style_color = ''black'',
              content = ''hi''\<rparr>"
proof -
  have changed: "scale_of example_props \<noteq> scale_of (example_props\<lparr>scale := Some 2\<rparr>)"
    by (simp add: scale_of_def example_props_def)
  then have hyp: "scale_of example_props \<noteq> scale_of (example_props\<lparr>scale := Some 2\<rparr>)
      \<or> offsetX_of example_props \<noteq> offsetX_of (example_props\<lparr>scale := Some 2\<rparr>)
      \<or> offsetY_of example_props \<noteq> offsetY_of (example_props\<lparr>scale := Some 2\<rparr>)"
    by simp
  show ?thesis
    using changed layout_effect_sets_transform_only [OF hyp, of example_externals False example_wrapper]
    by (simp add: example_defs example_wrapper_def scale_of_def offsetX_of_def offsetY_of_def)
qed

subsection \<open>Normalisation\<close>

lemma normalizeText_no_CR: "CR \<notin> set (TLDR_normalizeText s)"
  by (induction s rule: TLDR_normalizeText.induct) (auto simp add: CR_def LF_def)

lemma normalizeText_fixes_CR_free: "CR \<notin> set s \<Longrightarrow> TLDR_normalizeText s = s"
  by (induction s rule: TLDR_normalizeText.induct) auto

text \<open>
  C9. Normalising a normalised text changes nothing, and a normalised text contains no
  carriage return.
\<close>

theorem normalizeText_idempotent:
  "TLDR_normalizeText (TLDR_normalizeText s) = TLDR_normalizeText s
   \<and> CR \<notin> set (TLDR_normalizeText s)"
  by (simp add: normalizeText_no_CR normalizeText_fixes_CR_free)

theorem normalizeText_idempotent_witness:
  "TLDR_normalizeText [CHR ''a'', CR, LF, CR, CHR ''b'', LF, CR] = [CHR ''a'', LF, LF, CHR ''b'', LF, LF]
   \<and> TLDR_normalizeText (TLDR_normalizeText [CHR ''a'', CR, LF, CR, CHR ''b'', LF, CR])
       = TLDR_normalizeText [CHR ''a'', CR, LF, CR, CHR ''b'', LF, CR]"
  using normalizeText_idempotent [of "[CHR ''a'', CR, LF, CR, CHR ''b'', LF, CR]"]
  by (simp add: CR_def LF_def)

end
